theory Spec2Isabelle
  imports Complex_Main
begin

section \<open>Numbers\<close>

text \<open>
  The script computes with JavaScript numbers. Block heights, satoshi amounts and Unix
  timestamps are integers far below \<open>2 ^ 53\<close>, where the arithmetic of the script
  (\<open>+\<close>, \<open>-\<close>, \<open>*\<close>, \<open>Math.floor\<close>, \<open>Math.min\<close>, \<open>Math.max\<close>) is exact, so they
  are modelled as \<open>int\<close>. The average block time and the instants in milliseconds come
  out of a division and are modelled as exact \<open>real\<close> numbers. \<open>null\<close> is \<open>None\<close>.
\<close>

subsection \<open>Constants (script.ts, lines 9-20)\<close>

definition TARGET_BTC :: int where
  "TARGET_BTC = 20000000"

definition TOTAL_BTC_SUPPLY :: int where
  "TOTAL_BTC_SUPPLY = 21000000"

definition SATS_PER_BTC :: int where
  "SATS_PER_BTC = 100000000"

definition HALVING_INTERVAL :: int where
  "HALVING_INTERVAL = 210000"

definition INITIAL_SUBSIDY_SATS :: int where
  "INITIAL_SUBSIDY_SATS = 50 * SATS_PER_BTC"

definition FIXED_BLOCK_TIME_MS :: real where
  "FIXED_BLOCK_TIME_MS = 10 * 60 * 1000"

definition FALLBACK_BLOCK_TIME_MS :: real where
  "FALLBACK_BLOCK_TIME_MS = FIXED_BLOCK_TIME_MS"

definition TARGET_SATS :: int where
  "TARGET_SATS = TARGET_BTC * SATS_PER_BTC"

section \<open>Issuance model\<close>

subsection \<open>totalSubsidyAtHeight (script.ts, lines 70-85)\<close>

text \<open>
  The \<open>while\<close> loop of \<open>totalSubsidyAtHeight\<close>, on its three variables (\<open>tot\<close> is
  the script's \<open>total\<close>). The subsidy is halved in every round, which is why the loop
  ends.
\<close>

function totalSubsidyLoop :: "int \<Rightarrow> int \<Rightarrow> int \<Rightarrow> int" where
  "totalSubsidyLoop remainingBlocks subsidy tot =
     (if remainingBlocks > 0 \<and> subsidy > 0 then
        let blocksThisEra = min remainingBlocks HALVING_INTERVAL
        in totalSubsidyLoop (remainingBlocks - blocksThisEra) (subsidy div 2)
             (tot + blocksThisEra * subsidy)
      else tot)"
  by pat_completeness auto
termination
  by (relation "measure (\<lambda>(remainingBlocks, subsidy, tot). nat subsidy)") auto

declare totalSubsidyLoop.simps [simp del]

definition totalSubsidyAtHeight :: "int option \<Rightarrow> int" where
  "totalSubsidyAtHeight height =
     (case height of
        None \<Rightarrow> 0
      | Some h \<Rightarrow> if h < 0 then 0 else totalSubsidyLoop (h + 1) INITIAL_SUBSIDY_SATS 0)"

subsection \<open>blockHeightForSupply (script.ts, lines 88-107)\<close>

text \<open>
  \<open>Math.ceil(remaining / subsidy)\<close> on integers, with a positive divisor: the least
  integer not below the quotient (lemma \<open>ceilDiv_ceiling\<close> below).
\<close>

definition ceilDiv :: "int \<Rightarrow> int \<Rightarrow> int" where
  "ceilDiv a b = - ((- a) div b)"

function blockHeightLoop :: "int \<Rightarrow> int \<Rightarrow> int \<Rightarrow> int option" where
  "blockHeightLoop subsidy remaining blocks =
     (if subsidy > 0 then
        let eraSupply = subsidy * HALVING_INTERVAL
        in if remaining > eraSupply then
             blockHeightLoop (subsidy div 2) (remaining - eraSupply) (blocks + HALVING_INTERVAL)
           else
             let blocksNeeded = ceilDiv remaining subsidy
             in Some (blocks + blocksNeeded - 1)
      else None)"
  by pat_completeness auto
termination
  by (relation "measure (\<lambda>(subsidy, remaining, blocks). nat subsidy)") auto

declare blockHeightLoop.simps [simp del]

definition blockHeightForSupply :: "int \<Rightarrow> int option" where
  "blockHeightForSupply targetSats = blockHeightLoop INITIAL_SUBSIDY_SATS targetSats 0"

subsection \<open>Startup (script.ts, lines 20-25)\<close>

definition TARGET_BLOCK :: "int option" where
  "TARGET_BLOCK = blockHeightForSupply TARGET_SATS"

datatype startup_error = UnableToComputeTargetBlockHeight

text \<open>
  The module throws when \<open>TARGET_BLOCK\<close> is \<open>null\<close>; otherwise it binds the value to
  \<open>TARGET_BLOCK_HEIGHT\<close> and goes on.
\<close>

definition startup :: "startup_error + int" where
  "startup = (case TARGET_BLOCK of None \<Rightarrow> Inl UnableToComputeTargetBlockHeight | Some b \<Rightarrow> Inr b)"

text \<open>
  The rest of the script runs only after the binding, that is with \<open>TARGET_BLOCK\<close> not
  \<open>null\<close> (lemma \<open>TARGET_BLOCK_value\<close> below shows that it is not).
\<close>

definition TARGET_BLOCK_HEIGHT :: int where
  "TARGET_BLOCK_HEIGHT = the TARGET_BLOCK"

section \<open>Rate estimator\<close>

record block =
  height :: int
  timestamp :: int

text \<open>
  The \<open>for\<close> loop of \<open>calculateAverageBlockTimeMs\<close> (script.ts, lines 114-120), on the
  index \<open>i\<close> and the two accumulators. Both reads are in range under the loop condition.
\<close>

function averageLoop :: "block list \<Rightarrow> nat \<Rightarrow> int \<Rightarrow> nat \<Rightarrow> int \<times> nat" where
  "averageLoop blocks i totalSeconds samples =
     (if int i < int (length blocks) - 1 then
        let delta = timestamp (blocks ! i) - timestamp (blocks ! (i + 1))
        in if delta > 0 then averageLoop blocks (i + 1) (totalSeconds + delta) (samples + 1)
           else averageLoop blocks (i + 1) totalSeconds samples
      else (totalSeconds, samples))"
  by pat_completeness auto
termination
  by (relation "measure (\<lambda>(blocks, i, totalSeconds, samples). length blocks - i)") auto

declare averageLoop.simps [simp del]

definition calculateAverageBlockTimeMs :: "block list \<Rightarrow> real option" where
  "calculateAverageBlockTimeMs blocks =
     (if length blocks < 2 then None
      else
        let (totalSeconds, samples) = averageLoop blocks 0 0 0
        in if samples = 0 then None
           else Some ((real_of_int totalSeconds / real samples) * 1000))"

section \<open>Estimate state and projection engine\<close>

datatype EstimateMode = Average | Fixed

text \<open>
  The module's variables (script.ts, lines 28-33), and of the page the one thing the
  poll writes that a property below is about: whether the element showing the current
  block carries the class \<open>error\<close> (with the text \<open>API Error\<close>). \<open>countdownInterval\<close> and
  the other texts of the page take no part in the estimate and are left out.
\<close>

record state =
  currentBlock :: "int option"
  avgBlockTimeMs :: real
  lastBlockTimeMs :: "real option"
  estimatedTargetTimeMs :: "real option"
  estimateMode :: EstimateMode
  currentBlockError :: bool

definition initState :: state where
  "initState =
     \<lparr>currentBlock = None, avgBlockTimeMs = FALLBACK_BLOCK_TIME_MS, lastBlockTimeMs = None,
      estimatedTargetTimeMs = None, estimateMode = Average, currentBlockError = False\<rparr>"

definition getActiveBlockTimeMs :: "state \<Rightarrow> real" where
  "getActiveBlockTimeMs s =
     (if estimateMode s = Fixed then FIXED_BLOCK_TIME_MS else avgBlockTimeMs s)"

text \<open>
  \<open>updateEstimatedTargetTime\<close> (script.ts, lines 130-133) with both arguments given, as
  in every call of the script.
\<close>

definition updateEstimatedTargetTime :: "int option \<Rightarrow> real option \<Rightarrow> state \<Rightarrow> state" where
  "updateEstimatedTargetTime blocksLeft anchorTimeMs s =
     (case anchorTimeMs of
        None \<Rightarrow> s
      | Some anchor \<Rightarrow>
          (case blocksLeft of
             None \<Rightarrow> s
           | Some left \<Rightarrow>
               s\<lparr>estimatedTargetTimeMs :=
                    Some (anchor + (real_of_int left * getActiveBlockTimeMs s))\<rparr>))"

section \<open>Feed update coordinator\<close>

text \<open>
  A poll is modelled by what its requests bring back. The fallback request: \<open>None\<close> when
  the request fails, the response is not OK or the number is not finite, otherwise the
  height. \<open>now\<close> is the value of \<open>Date.now()\<close>.
\<close>

definition fetchBlockHeightFallback :: "int option \<Rightarrow> real \<Rightarrow> state \<Rightarrow> bool \<times> state" where
  "fetchBlockHeightFallback response now s =
     (case response of
        None \<Rightarrow> (False, s\<lparr>currentBlockError := True\<rparr>)
      | Some h \<Rightarrow>
          let isNewBlock = (currentBlock s = None \<or> Some h \<noteq> currentBlock s);
              s1 = s\<lparr>currentBlock := Some h\<rparr>
          in if isNewBlock \<or> estimatedTargetTimeMs s1 = None then
               let s2 = s1\<lparr>lastBlockTimeMs := Some now\<rparr>
               in (True, updateEstimatedTargetTime (Some (max 0 (TARGET_BLOCK_HEIGHT - h)))
                           (lastBlockTimeMs s2) s2)
             else (True, s1))"

text \<open>
  \<open>[...blocks].sort((a, b) => b.height - a.height)\<close>: a stable sort, highest block
  first.
\<close>

definition sortBlocks :: "block list \<Rightarrow> block list" where
  "sortBlocks blocks = sort_key (\<lambda>b. - height b) blocks"

text \<open>
  The primary request: \<open>None\<close> when the request fails, the response is not OK or the
  payload is not an array, otherwise the array of blocks. Every failure, the empty array
  too, goes to the fallback. \<open>if (averageMs)\<close> is false on \<open>null\<close> and on \<open>0\<close>.
\<close>

definition fetchBlockData ::
  "block list option \<Rightarrow> int option \<Rightarrow> real \<Rightarrow> state \<Rightarrow> bool \<times> state" where
  "fetchBlockData response fallbackResponse now s =
     (case response of
        None \<Rightarrow> fetchBlockHeightFallback fallbackResponse now s
      | Some blocks \<Rightarrow>
          if length blocks = 0 then fetchBlockHeightFallback fallbackResponse now s
          else
            let sortedBlocks = sortBlocks blocks;
                tipBlock = hd sortedBlocks;
                nextHeight = height tipBlock;
                isNewBlock = (currentBlock s = None \<or> Some nextHeight \<noteq> currentBlock s);
                s1 = s\<lparr>currentBlock := Some nextHeight\<rparr>;
                averageMs = calculateAverageBlockTimeMs sortedBlocks;
                s2 = (case averageMs of
                        None \<Rightarrow> s1
                      | Some a \<Rightarrow> if a \<noteq> 0 then s1\<lparr>avgBlockTimeMs := a\<rparr> else s1);
                blockTimeMs = real_of_int (timestamp tipBlock * 1000)
            in if isNewBlock \<or> estimatedTargetTimeMs s2 = None
                  \<or> lastBlockTimeMs s2 \<noteq> Some blockTimeMs then
                 (True, updateEstimatedTargetTime (Some (max 0 (TARGET_BLOCK_HEIGHT - nextHeight)))
                          (Some blockTimeMs) (s2\<lparr>lastBlockTimeMs := Some blockTimeMs\<rparr>))
               else (True, s2))"

subsection \<open>The callers of the poll\<close>

text \<open>
  Of \<open>updateDisplay\<close> (script.ts, lines 350-363) only what it does to the state above:
  with a current block, \<open>updateStatsDisplay\<close> removes the class \<open>error\<close> again.
\<close>

definition updateDisplay :: "state \<Rightarrow> state" where
  "updateDisplay s = (if currentBlock s = None then s else s\<lparr>currentBlockError := False\<rparr>)"

text \<open>
  The change handler of the toggle (script.ts, lines 340-346); \<open>checked\<close> is the state
  of the checkbox.
\<close>

definition toggleEstimateMode :: "bool \<Rightarrow> state \<Rightarrow> state" where
  "toggleEstimateMode checked s =
     (let s1 = s\<lparr>estimateMode := (if checked then Average else Fixed)\<rparr>;
          s2 = (case currentBlock s1 of
                  None \<Rightarrow> s1
                | Some cb \<Rightarrow>
                    if lastBlockTimeMs s1 \<noteq> None then
                      updateEstimatedTargetTime (Some (max 0 (TARGET_BLOCK_HEIGHT - cb)))
                        (lastBlockTimeMs s1) s1
                    else s1)
      in updateDisplay s2)"

text \<open>
  What happens to the state after startup. A poll writes only after its last response has
  come, so each poll is one step, at the time it ends. Every caller of the poll (first
  fetch, 30-second interval, page becoming visible) runs \<open>updateDisplay\<close> next, and so
  does the 1-second interval: that is the step \<open>Tick\<close>. The last kind of step is a flip
  of the toggle.
\<close>

datatype event =
  Poll "block list option" "int option" real
| Tick
| Toggle bool

fun step :: "state \<Rightarrow> event \<Rightarrow> state" where
  "step s (Poll response fallbackResponse now) =
     snd (fetchBlockData response fallbackResponse now s)"
| "step s Tick = updateDisplay s"
| "step s (Toggle checked) = toggleEstimateMode checked s"

definition run :: "event list \<Rightarrow> state" where
  "run events = foldl step initState events"

section \<open>The era summation of the specification\<close>

text \<open>
  The specification describes the cumulative issuance as a sum over the halving eras: era
  \<open>k\<close> pays the starting amount halved \<open>k\<close> times, rounded down, for each of its at most
  \<open>HALVING_INTERVAL\<close> blocks. The amount is positive in the eras 0 to 32 and zero from
  era 33 on. These definitions follow the specification, not the script.
\<close>

definition eraSubsidy :: "nat \<Rightarrow> int" where
  "eraSubsidy k = INITIAL_SUBSIDY_SATS div 2 ^ k"

text \<open>Blocks 0 to \<open>h\<close> are \<open>h + 1\<close> blocks; era \<open>k\<close> holds what is left of them, capped.\<close>

definition eraSummation :: "int \<Rightarrow> int" where
  "eraSummation h =
     (\<Sum>k<33. min (max 0 (h + 1 - HALVING_INTERVAL * int k)) HALVING_INTERVAL * eraSubsidy k)"

text \<open>The total finite issuance: every era in full.\<close>

definition totalFiniteIssuance :: int where
  "totalFiniteIssuance = (\<Sum>k<33. HALVING_INTERVAL * eraSubsidy k)"

section \<open>Properties of the issuance model\<close>

subsection \<open>The loop of totalSubsidyAtHeight as a sum\<close>

lemma HALVING_INTERVAL_pos: "0 < HALVING_INTERVAL"
  by (simp add: HALVING_INTERVAL_def)

lemma totalSubsidyLoop_stop: "\<not> (0 < n \<and> 0 < s) \<Longrightarrow> totalSubsidyLoop n s t = t"
  by (subst totalSubsidyLoop.simps) auto

lemma totalSubsidyLoop_step:
  "0 < n \<Longrightarrow> 0 < s \<Longrightarrow>
   totalSubsidyLoop n s t =
   totalSubsidyLoop (n - min n HALVING_INTERVAL) (s div 2) (t + min n HALVING_INTERVAL * s)"
  by (subst totalSubsidyLoop.simps) (simp add: Let_def)

lemma totalSubsidyLoop_sum:
  "0 \<le> s \<Longrightarrow> s < 2 ^ K \<Longrightarrow>
   totalSubsidyLoop n s t =
   t + (\<Sum>k<K. min (max 0 (n - HALVING_INTERVAL * int k)) HALVING_INTERVAL * (s div 2 ^ k))"
proof (induction K arbitrary: n s t)
  case 0
  then have "s = 0" by simp
  then show ?case by (simp add: totalSubsidyLoop_stop)
next
  case (Suc K)
  let ?L = HALVING_INTERVAL
  let ?f = "\<lambda>n s k. min (max 0 (n - ?L * int k)) ?L * (s div 2 ^ k)"
  show ?case
  proof (cases "0 < n \<and> 0 < s")
    case False
    have z: "?f n s k = 0" for k
    proof (cases "0 < s")
      case True
      with False have "n \<le> 0" by simp
      moreover have "0 \<le> ?L * int k" using HALVING_INTERVAL_pos by simp
      ultimately have "max 0 (n - ?L * int k) = 0" by linarith
      then show ?thesis using HALVING_INTERVAL_pos by simp
    next
      case False
      with Suc.prems have "s = 0" by simp
      then show ?thesis by simp
    qed
    have "(\<Sum>k<Suc K. ?f n s k) = 0"
      by (simp only: z sum.neutral_const)
    moreover have "totalSubsidyLoop n s t = t"
      using False by (rule totalSubsidyLoop_stop)
    ultimately show ?thesis by (simp only: add_0_right)
  next
    case True
    define b where "b = min n ?L"
    have s2: "0 \<le> s div 2" "s div 2 < 2 ^ K" using Suc.prems by auto
    have "totalSubsidyLoop n s t = totalSubsidyLoop (n - b) (s div 2) (t + b * s)"
      using True by (simp add: totalSubsidyLoop_step b_def)
    also have "\<dots> = t + b * s + (\<Sum>k<K. ?f (n - b) (s div 2) k)"
      by (rule Suc.IH [OF s2])
    also have "(\<Sum>k<K. ?f (n - b) (s div 2) k) = (\<Sum>k<K. ?f n s (Suc k))"
    proof (rule sum.cong [OF refl])
      fix k
      have d: "s div 2 div 2 ^ k = s div 2 ^ Suc k"
        by (simp add: zdiv_zmult2_eq)
      have e: "?L * int (Suc k) = ?L + ?L * int k"
        by (simp add: algebra_simps)
      have nn: "0 \<le> ?L * int k"
        using HALVING_INTERVAL_pos by simp
      have "max 0 (n - b - ?L * int k) = max 0 (n - ?L * int (Suc k))"
      proof (cases "n \<le> ?L")
        case le: True
        then have "b = n" by (simp add: b_def)
        with le nn have "n - b - ?L * int k \<le> 0" "n - (?L + ?L * int k) \<le> 0"
          by linarith+
        then show ?thesis unfolding e by linarith
      next
        case gt: False
        then have "b = ?L" by (simp add: b_def)
        then show ?thesis unfolding e by linarith
      qed
      then show "?f (n - b) (s div 2) k = ?f n s (Suc k)" using d by simp
    qed
    also have "b * s = ?f n s 0" using True by (simp add: b_def max_def)
    finally show ?thesis
      by (simp only: sum.lessThan_Suc_shift add.assoc)
  qed
qed

lemma INITIAL_SUBSIDY_SATS_bounds: "0 < INITIAL_SUBSIDY_SATS" "INITIAL_SUBSIDY_SATS < 2 ^ 33"
  by (simp_all add: INITIAL_SUBSIDY_SATS_def SATS_PER_BTC_def)

lemma totalSubsidyAtHeight_eraSummation: "totalSubsidyAtHeight (Some h) = eraSummation h"
proof (cases "h < 0")
  case True
  have "min (max 0 (h + 1 - HALVING_INTERVAL * int k)) HALVING_INTERVAL = 0" for k
  proof -
    have "0 \<le> HALVING_INTERVAL * int k" using HALVING_INTERVAL_pos by simp
    then have "max 0 (h + 1 - HALVING_INTERVAL * int k) = 0" using True by linarith
    then show ?thesis using HALVING_INTERVAL_pos by simp
  qed
  then show ?thesis using True by (simp add: totalSubsidyAtHeight_def eraSummation_def)
next
  case False
  then show ?thesis
    using totalSubsidyLoop_sum [of INITIAL_SUBSIDY_SATS 33 "h + 1" 0] INITIAL_SUBSIDY_SATS_bounds
    by (simp add: totalSubsidyAtHeight_def eraSummation_def eraSubsidy_def)
qed

lemma eraSubsidy_nonneg: "0 \<le> eraSubsidy k"
  using INITIAL_SUBSIDY_SATS_bounds by (simp add: eraSubsidy_def pos_imp_zdiv_nonneg_iff)

lemma eraSummation_mono: "h1 \<le> h2 \<Longrightarrow> eraSummation h1 \<le> eraSummation h2"
  unfolding eraSummation_def
  by (intro sum_mono mult_right_mono eraSubsidy_nonneg) (auto simp: min_def max_def)

lemma eraSummation_nonneg: "0 \<le> eraSummation h"
  unfolding eraSummation_def using HALVING_INTERVAL_pos
  by (intro sum_nonneg mult_nonneg_nonneg eraSubsidy_nonneg) (auto simp: min_def max_def)

subsection \<open>Ceiling division\<close>

lemma ceilDiv_ceiling: "ceilDiv a b = \<lceil>real_of_int a / real_of_int b\<rceil>"
  by (simp add: ceilDiv_def ceiling_divide_eq_div)

lemma ceilDiv_mult: "0 < s \<Longrightarrow> ceilDiv (n * s) s = n"
proof -
  assume "0 < s"
  then have "(- n * s) div s = - n"
    using nonzero_mult_div_cancel_right [of s "- n"] by simp
  then show ?thesis by (simp add: ceilDiv_def)
qed

lemma ceilDiv_ge: "0 < s \<Longrightarrow> t \<le> ceilDiv t s * s"
proof -
  assume s: "0 < s"
  have "(- t) div s * s + (- t) mod s = - t" by (rule div_mult_mod_eq)
  moreover have "0 \<le> (- t) mod s" using s by simp
  ultimately have "(- t) div s * s \<le> - t" by linarith
  then show ?thesis by (simp add: ceilDiv_def)
qed

lemma ceilDiv_le: "0 < s \<Longrightarrow> t \<le> s * l \<Longrightarrow> ceilDiv t s \<le> l"
proof -
  assume s: "0 < s" and t: "t \<le> s * l"
  from t have "- l * s \<le> - t" by (simp add: mult.commute)
  then have "(- l * s) div s \<le> (- t) div s" using s by (rule zdiv_mono1)
  moreover have "(- l * s) div s = - l"
    using s nonzero_mult_div_cancel_right [of s "- l"] by simp
  ultimately show ?thesis by (simp add: ceilDiv_def)
qed

lemma ceilDiv_nonpos: "0 < s \<Longrightarrow> ceilDiv t s \<le> 0 \<Longrightarrow> t \<le> 0"
proof -
  assume s: "0 < s" and c: "ceilDiv t s \<le> 0"
  have "t \<le> ceilDiv t s * s" using s by (rule ceilDiv_ge)
  moreover have "ceilDiv t s * s \<le> 0" using s c by (simp add: mult_le_0_iff)
  ultimately show ?thesis by linarith
qed

subsection \<open>One round of the loop of totalSubsidyAtHeight\<close>

lemma totalSubsidyLoop_acc: "totalSubsidyLoop n s t = t + totalSubsidyLoop n s 0"
proof (cases "0 \<le> s")
  case True
  then have "s < 2 ^ nat s"
    using of_nat_less_two_power [of "nat s", where ?'a = int] by simp
  with True show ?thesis
    using totalSubsidyLoop_sum [of s "nat s" n t] totalSubsidyLoop_sum [of s "nat s" n 0]
    by simp
next
  case False
  then show ?thesis by (simp add: totalSubsidyLoop_stop)
qed

lemma totalSubsidyLoop_nonneg: "0 \<le> totalSubsidyLoop n s 0"
proof (cases "0 \<le> s")
  case True
  then have b: "s < 2 ^ nat s"
    using of_nat_less_two_power [of "nat s", where ?'a = int] by simp
  have "0 \<le> (\<Sum>k<nat s. min (max 0 (n - HALVING_INTERVAL * int k)) HALVING_INTERVAL * (s div 2 ^ k))"
    using HALVING_INTERVAL_pos True
    by (intro sum_nonneg mult_nonneg_nonneg) (auto simp: pos_imp_zdiv_nonneg_iff)
  then show ?thesis
    using totalSubsidyLoop_sum [OF True b, of n 0] by simp
next
  case False
  then show ?thesis by (simp add: totalSubsidyLoop_stop)
qed

lemma totalSubsidyLoop_small:
  "0 < n \<Longrightarrow> n \<le> HALVING_INTERVAL \<Longrightarrow> 0 < s \<Longrightarrow> totalSubsidyLoop n s 0 = n * s"
  by (simp add: totalSubsidyLoop_step totalSubsidyLoop_stop)

lemma totalSubsidyLoop_large:
  "HALVING_INTERVAL < n \<Longrightarrow> 0 < s \<Longrightarrow>
   totalSubsidyLoop n s 0 =
   HALVING_INTERVAL * s + totalSubsidyLoop (n - HALVING_INTERVAL) (s div 2) 0"
proof -
  assume n: "HALVING_INTERVAL < n" and s: "0 < s"
  then have "0 < n" using HALVING_INTERVAL_pos by linarith
  then have "totalSubsidyLoop n s 0 =
      totalSubsidyLoop (n - HALVING_INTERVAL) (s div 2) (HALVING_INTERVAL * s)"
    using n s by (simp add: totalSubsidyLoop_step)
  then show ?thesis
    using totalSubsidyLoop_acc [of "n - HALVING_INTERVAL" "s div 2" "HALVING_INTERVAL * s"]
    by simp
qed

lemma totalSubsidyLoop_pos: "0 < n \<Longrightarrow> 0 < s \<Longrightarrow> 0 < totalSubsidyLoop n s 0"
proof (cases "n \<le> HALVING_INTERVAL")
  case True
  assume "0 < n" "0 < s"
  then show ?thesis using True by (simp add: totalSubsidyLoop_small)
next
  case False
  assume "0 < n" and s: "0 < s"
  have "0 < HALVING_INTERVAL * s" using s HALVING_INTERVAL_pos by simp
  moreover have "0 \<le> totalSubsidyLoop (n - HALVING_INTERVAL) (s div 2) 0"
    by (rule totalSubsidyLoop_nonneg)
  ultimately show ?thesis using False s by (simp add: totalSubsidyLoop_large)
qed

subsection \<open>The solver against the issuance\<close>

lemma blockHeightLoop_last:
  "0 < s \<Longrightarrow> \<not> s * HALVING_INTERVAL < t \<Longrightarrow>
   blockHeightLoop s t b = Some (b + ceilDiv t s - 1)"
  by (subst blockHeightLoop.simps) (simp add: Let_def)

lemma blockHeightLoop_next:
  "0 < s \<Longrightarrow> s * HALVING_INTERVAL < t \<Longrightarrow>
   blockHeightLoop s t b =
   blockHeightLoop (s div 2) (t - s * HALVING_INTERVAL) (b + HALVING_INTERVAL)"
  by (subst blockHeightLoop.simps) (simp add: Let_def)

lemma blockHeightLoop_none: "\<not> 0 < s \<Longrightarrow> blockHeightLoop s t b = None"
  by (subst blockHeightLoop.simps) simp

lemma blockHeightLoop_of_total:
  "0 < s \<Longrightarrow> 0 \<le> n \<Longrightarrow>
   \<exists>r. blockHeightLoop s (totalSubsidyLoop n s 0) b = Some r \<and> r \<le> b + n - 1"
proof (induction "nat s" arbitrary: s n b rule: less_induct)
  case less
  let ?L = HALVING_INTERVAL
  show ?case
  proof (cases "n \<le> ?L")
    case True
    have t: "totalSubsidyLoop n s 0 = n * s"
      using True less.prems
      by (cases "n = 0") (simp_all add: totalSubsidyLoop_stop totalSubsidyLoop_small)
    have "\<not> s * ?L < n * s"
      using True less.prems by (simp add: mult.commute)
    then have "blockHeightLoop s (n * s) b = Some (b + ceilDiv (n * s) s - 1)"
      using less.prems by (simp add: blockHeightLoop_last)
    then show ?thesis using t less.prems by (simp add: ceilDiv_mult)
  next
    case False
    then have n: "?L < n" by simp
    define t' where "t' = totalSubsidyLoop (n - ?L) (s div 2) 0"
    have t: "totalSubsidyLoop n s 0 = ?L * s + t'"
      using n less.prems by (simp add: totalSubsidyLoop_large t'_def)
    show ?thesis
    proof (cases "0 < s div 2")
      case True
      then have "0 < t'" using n by (simp add: t'_def totalSubsidyLoop_pos)
      then have "blockHeightLoop s (?L * s + t') b = blockHeightLoop (s div 2) t' (b + ?L)"
        using less.prems by (simp add: blockHeightLoop_next mult.commute)
      moreover have "nat (s div 2) < nat s" using less.prems by simp
      then have "\<exists>r. blockHeightLoop (s div 2) t' (b + ?L) = Some r \<and> r \<le> b + ?L + (n - ?L) - 1"
        unfolding t'_def using True n less.hyps [of "s div 2" "n - ?L" "b + ?L"] by simp
      ultimately show ?thesis using t by simp
    next
      case False
      then have "t' = 0" by (simp add: t'_def totalSubsidyLoop_stop)
      with t have t0: "totalSubsidyLoop n s 0 = ?L * s" by simp
      have "blockHeightLoop s (?L * s) b = Some (b + ceilDiv (?L * s) s - 1)"
        using less.prems by (simp add: blockHeightLoop_last mult.commute)
      then show ?thesis using t0 n less.prems by (simp add: ceilDiv_mult)
    qed
  qed
qed

lemma total_of_blockHeightLoop:
  "blockHeightLoop s t b = Some r \<Longrightarrow> t \<le> totalSubsidyLoop (r + 1 - b) s 0"
proof (induction s t b rule: blockHeightLoop.induct)
  case (1 s t b)
  let ?L = HALVING_INTERVAL
  from "1.prems" have s: "0 < s"
    by (cases "0 < s") (simp_all add: blockHeightLoop_none)
  show ?case
  proof (cases "s * ?L < t")
    case True
    then have rec: "blockHeightLoop (s div 2) (t - s * ?L) (b + ?L) = Some r"
      using "1.prems" s by (simp add: blockHeightLoop_next)
    have ih: "t - s * ?L \<le> totalSubsidyLoop (r + 1 - (b + ?L)) (s div 2) 0"
      using "1.IH" [OF s refl True rec] .
    have "0 < totalSubsidyLoop (r + 1 - (b + ?L)) (s div 2) 0"
      using ih True by linarith
    then have "0 < r + 1 - (b + ?L)"
      by (cases "0 < r + 1 - (b + ?L)") (simp_all add: totalSubsidyLoop_stop)
    then have "totalSubsidyLoop (r + 1 - b) s 0 =
        ?L * s + totalSubsidyLoop (r + 1 - b - ?L) (s div 2) 0"
      using s totalSubsidyLoop_large [of "r + 1 - b" s] by simp
    then show ?thesis using ih by (simp add: algebra_simps)
  next
    case False
    then have r: "r = b + ceilDiv t s - 1"
      using "1.prems" s by (simp add: blockHeightLoop_last)
    have le: "ceilDiv t s \<le> ?L" using s False ceilDiv_le [of s t HALVING_INTERVAL] by simp
    show ?thesis
    proof (cases "0 < ceilDiv t s")
      case True
      then have "totalSubsidyLoop (ceilDiv t s) s 0 = ceilDiv t s * s"
        using le s by (simp add: totalSubsidyLoop_small)
      then show ?thesis using r ceilDiv_ge [OF s, of t] by simp
    next
      case False
      then have "t \<le> 0" using s ceilDiv_nonpos [of s t] by simp
      then show ?thesis using r False by (simp add: totalSubsidyLoop_stop)
    qed
  qed
qed

lemma blockHeightLoop_reachable:
  "0 < s \<Longrightarrow> t \<le> totalSubsidyLoop n s 0 \<Longrightarrow> \<exists>r. blockHeightLoop s t b = Some r"
proof (induction "nat s" arbitrary: s t n b rule: less_induct)
  case less
  let ?L = HALVING_INTERVAL
  show ?case
  proof (cases "s * ?L < t")
    case False
    then show ?thesis using less.prems by (simp add: blockHeightLoop_last)
  next
    case True
    have sl: "0 < s * ?L" using less.prems HALVING_INTERVAL_pos by simp
    have n: "?L < n"
    proof (rule ccontr)
      assume "\<not> ?L < n"
      then have "totalSubsidyLoop n s 0 \<le> s * ?L"
        using less.prems sl
        by (cases "0 < n") (simp_all add: totalSubsidyLoop_small totalSubsidyLoop_stop mult.commute)
      with True less.prems show False by linarith
    qed
    then have t: "t - s * ?L \<le> totalSubsidyLoop (n - ?L) (s div 2) 0"
      using less.prems by (simp add: totalSubsidyLoop_large algebra_simps)
    with True have "0 < totalSubsidyLoop (n - ?L) (s div 2) 0" by linarith
    then have s2: "0 < s div 2"
      by (cases "0 < s div 2") (simp_all add: totalSubsidyLoop_stop)
    have "nat (s div 2) < nat s" using less.prems by simp
    then have "\<exists>r. blockHeightLoop (s div 2) (t - s * ?L) (b + ?L) = Some r"
      using s2 t by (rule less.hyps)
    then show ?thesis using True less.prems by (simp add: blockHeightLoop_next)
  qed
qed


subsection \<open>Values at the constants of the script\<close>

lemma totalSubsidyAtHeight_loop:
  "totalSubsidyAtHeight (Some h) = totalSubsidyLoop (h + 1) INITIAL_SUBSIDY_SATS 0"
  by (simp add: totalSubsidyAtHeight_def totalSubsidyLoop_stop)

lemma blockHeightForSupply_TARGET_SATS: "blockHeightForSupply TARGET_SATS = Some 939999"
  by (simp add: blockHeightForSupply_def blockHeightLoop.simps TARGET_SATS_def TARGET_BTC_def
      INITIAL_SUBSIDY_SATS_def SATS_PER_BTC_def HALVING_INTERVAL_def ceilDiv_def)

lemma TARGET_BLOCK_value: "TARGET_BLOCK = Some 939999"
  by (simp add: TARGET_BLOCK_def blockHeightForSupply_TARGET_SATS)

lemma TARGET_BLOCK_HEIGHT_value: "TARGET_BLOCK_HEIGHT = 939999"
  by (simp add: TARGET_BLOCK_HEIGHT_def TARGET_BLOCK_value)

lemma totalSubsidyAtHeight_last_era: "totalSubsidyAtHeight (Some 6929999) = 2099999997690000"
  by (simp add: totalSubsidyAtHeight_def totalSubsidyLoop.simps INITIAL_SUBSIDY_SATS_def
      SATS_PER_BTC_def HALVING_INTERVAL_def)

lemma totalFiniteIssuance_eraSummation: "totalFiniteIssuance = eraSummation 6929999"
  unfolding totalFiniteIssuance_def eraSummation_def
proof (rule sum.cong [OF refl])
  fix k :: nat
  assume "k \<in> {..<33}"
  then have "int k \<le> 32" by simp
  then have "min (max 0 (6929999 + 1 - HALVING_INTERVAL * int k)) HALVING_INTERVAL
      = HALVING_INTERVAL"
    by (simp add: HALVING_INTERVAL_def)
  then show "HALVING_INTERVAL * eraSubsidy k =
      min (max 0 (6929999 + 1 - HALVING_INTERVAL * int k)) HALVING_INTERVAL * eraSubsidy k"
    by simp
qed

lemma totalFiniteIssuance_value: "totalFiniteIssuance = 2099999997690000"
  by (simp only: totalFiniteIssuance_eraSummation
      totalSubsidyAtHeight_eraSummation [symmetric] totalSubsidyAtHeight_last_era)

lemma totalSubsidyAtHeight_le_totalFiniteIssuance:
  "totalSubsidyAtHeight (Some h) \<le> totalFiniteIssuance"
proof -
  have "eraSubsidy k * min (max 0 (h + 1 - HALVING_INTERVAL * int k)) HALVING_INTERVAL
      \<le> eraSubsidy k * HALVING_INTERVAL" for k
    by (rule mult_left_mono [OF _ eraSubsidy_nonneg]) simp
  then show ?thesis
    unfolding totalSubsidyAtHeight_eraSummation totalFiniteIssuance_def eraSummation_def
    by (intro sum_mono) (simp add: mult.commute)
qed

section \<open>Claims on the issuance model\<close>

text \<open>
  C1 (as stated, refuted): the solver applied to the threshold of 20,000,000 x 10^8 units
  would return 6,929,999. It does not.
\<close>

theorem target_block_height_not_6929999:
  "blockHeightForSupply (20000000 * 100000000) \<noteq> Some 6929999"
  by (simp add: blockHeightForSupply_def blockHeightLoop.simps
      INITIAL_SUBSIDY_SATS_def SATS_PER_BTC_def HALVING_INTERVAL_def ceilDiv_def)

text \<open>
  C1 (amended): with the starting amount of 50 x 10^8 units and the era length 210000,
  the solver applied to the threshold 20,000,000 x 10^8 returns 939,999, and this is the
  value the startup code binds to \<open>TARGET_BLOCK_HEIGHT\<close>, without throwing.
\<close>

theorem target_block_height_939999:
  "blockHeightForSupply (20000000 * 100000000) = Some 939999 \<and>
   TARGET_SATS = 20000000 * 100000000 \<and>
   startup = Inr 939999 \<and>
   TARGET_BLOCK_HEIGHT = 939999"
  using blockHeightForSupply_TARGET_SATS
  by (simp add: startup_def TARGET_BLOCK_value TARGET_BLOCK_HEIGHT_value TARGET_SATS_def
      TARGET_BTC_def SATS_PER_BTC_def)

text \<open>
  C2: first crossing. For every height \<open>h \<ge> 0\<close> the solver applied to the issuance at
  \<open>h\<close> returns a height, and it is at most \<open>h\<close>. For every threshold \<open>t\<close> from 0 to the
  total finite issuance the solver returns a height, and the issuance at that height is
  at least \<open>t\<close>.
\<close>

theorem first_crossing:
  "(0 \<le> h \<longrightarrow>
      (\<exists>r. blockHeightForSupply (totalSubsidyAtHeight (Some h)) = Some r \<and> r \<le> h)) \<and>
   (0 \<le> t \<and> t \<le> totalFiniteIssuance \<longrightarrow>
      (\<exists>r. blockHeightForSupply t = Some r \<and> t \<le> totalSubsidyAtHeight (Some r)))"
proof (intro conjI impI)
  assume "0 \<le> h"
  then show "\<exists>r. blockHeightForSupply (totalSubsidyAtHeight (Some h)) = Some r \<and> r \<le> h"
    using blockHeightLoop_of_total [of INITIAL_SUBSIDY_SATS "h + 1" 0]
      INITIAL_SUBSIDY_SATS_bounds(1)
    by (simp add: blockHeightForSupply_def totalSubsidyAtHeight_loop)
next
  assume "0 \<le> t \<and> t \<le> totalFiniteIssuance"
  then have "t \<le> totalSubsidyLoop (6929999 + 1) INITIAL_SUBSIDY_SATS 0"
    by (simp only: totalFiniteIssuance_eraSummation
        totalSubsidyAtHeight_eraSummation [symmetric] totalSubsidyAtHeight_loop)
  then obtain r where r: "blockHeightLoop INITIAL_SUBSIDY_SATS t 0 = Some r"
    using blockHeightLoop_reachable [OF INITIAL_SUBSIDY_SATS_bounds(1)] by blast
  then have "t \<le> totalSubsidyLoop (r + 1 - 0) INITIAL_SUBSIDY_SATS 0"
    by (rule total_of_blockHeightLoop)
  with r show "\<exists>r. blockHeightForSupply t = Some r \<and> t \<le> totalSubsidyAtHeight (Some r)"
    by (simp add: blockHeightForSupply_def totalSubsidyAtHeight_loop)
qed

text \<open>
  C2, at the height 939,999 and at the threshold of 20,000,000 x 10^8 units, which lies
  below the total finite issuance.
\<close>

theorem first_crossing_witness:
  "(0::int) \<le> 939999 \<and>
   (\<exists>r. blockHeightForSupply (totalSubsidyAtHeight (Some 939999)) = Some r \<and> r \<le> 939999) \<and>
   (0::int) \<le> 2000000000000000 \<and> 2000000000000000 \<le> totalFiniteIssuance \<and>
   (\<exists>r. blockHeightForSupply 2000000000000000 = Some r
        \<and> 2000000000000000 \<le> totalSubsidyAtHeight (Some r))"
  using first_crossing [of 939999 2000000000000000]
  by (simp add: totalFiniteIssuance_value)

text \<open>
  C4: the cumulative issuance is monotone in the height, it is never negative (for
  \<open>null\<close> too), it is 0 below height 0, and it equals the era summation of the
  specification at every integer height.
\<close>

theorem issuance_monotone_nonneg_closed_form:
  "(h1 \<le> h2 \<longrightarrow> totalSubsidyAtHeight (Some h1) \<le> totalSubsidyAtHeight (Some h2)) \<and>
   0 \<le> totalSubsidyAtHeight x \<and>
   (h < 0 \<longrightarrow> totalSubsidyAtHeight (Some h) = 0) \<and>
   totalSubsidyAtHeight (Some h) = eraSummation h"
proof (intro conjI impI)
  assume "h1 \<le> h2"
  then show "totalSubsidyAtHeight (Some h1) \<le> totalSubsidyAtHeight (Some h2)"
    by (simp only: totalSubsidyAtHeight_eraSummation eraSummation_mono)
next
  show "0 \<le> totalSubsidyAtHeight x"
  proof (cases x)
    case None
    then show ?thesis by (simp add: totalSubsidyAtHeight_def)
  next
    case (Some a)
    then show ?thesis by (simp only: totalSubsidyAtHeight_eraSummation eraSummation_nonneg)
  qed
next
  assume "h < 0"
  then show "totalSubsidyAtHeight (Some h) = 0" by (simp add: totalSubsidyAtHeight_def)
next
  show "totalSubsidyAtHeight (Some h) = eraSummation h"
    by (rule totalSubsidyAtHeight_eraSummation)
qed

text \<open>
  C4, across the first halving (heights 209,999 and 210,000), at \<open>null\<close> and at the
  height -1.
\<close>

theorem issuance_monotone_nonneg_closed_form_witness:
  "(209999::int) \<le> 210000 \<and>
   totalSubsidyAtHeight (Some 209999) \<le> totalSubsidyAtHeight (Some 210000) \<and>
   0 \<le> totalSubsidyAtHeight None \<and>
   (- 1 :: int) < 0 \<and> totalSubsidyAtHeight (Some (- 1)) = 0 \<and>
   totalSubsidyAtHeight (Some (- 1)) = eraSummation (- 1)"
  using issuance_monotone_nonneg_closed_form [of 209999 210000 None "- 1"]
  by simp

text \<open>
  C9: for the threshold 0 the solver returns -1, the value of \<open>ceil(0 / subsidy) - 1\<close> in
  the first era, which is below every block height. The issuance at -1 is 0, so the
  threshold is met there, and at height 0 the issuance is already above it.
\<close>

theorem blockHeightForSupply_zero:
  "blockHeightForSupply 0 = Some (- 1) \<and>
   blockHeightLoop INITIAL_SUBSIDY_SATS 0 0 = Some (0 + ceilDiv 0 INITIAL_SUBSIDY_SATS - 1) \<and>
   (case blockHeightForSupply 0 of None \<Rightarrow> False | Some r \<Rightarrow> r < 0) \<and>
   totalSubsidyAtHeight (blockHeightForSupply 0) = 0 \<and>
   0 < totalSubsidyAtHeight (Some 0)"
  by (simp add: blockHeightForSupply_def blockHeightLoop.simps totalSubsidyAtHeight_def
      totalSubsidyLoop.simps INITIAL_SUBSIDY_SATS_def SATS_PER_BTC_def HALVING_INTERVAL_def
      ceilDiv_def)


section \<open>Properties of the rate estimator\<close>

lemma averageLoop_samples_zero:
  "snd (averageLoop blocks i t n) = 0 \<longleftrightarrow>
   n = 0 \<and> (\<forall>j. i \<le> j \<and> Suc j < length blocks \<longrightarrow>
              timestamp (blocks ! j) - timestamp (blocks ! Suc j) \<le> 0)"
proof (induction blocks i t n rule: averageLoop.induct)
  case (1 blocks i t n)
  let ?d = "\<lambda>j. timestamp (blocks ! j) - timestamp (blocks ! Suc j)"
  show ?case
  proof (cases "Suc i < length blocks")
    case False
    then have "averageLoop blocks i t n = (t, n)"
      by (subst averageLoop.simps) auto
    moreover have "\<not> (i \<le> j \<and> Suc j < length blocks)" for j
      using False by auto
    ultimately show ?thesis by auto
  next
    case True
    then have c: "int i < int (length blocks) - 1" by auto
    show ?thesis
    proof (cases "0 < ?d i")
      case pos: True
      then have "averageLoop blocks i t n = averageLoop blocks (i + 1) (t + ?d i) (n + 1)"
        using c by (subst averageLoop.simps) (simp add: Let_def)
      moreover have "snd (averageLoop blocks (i + 1) (t + ?d i) (n + 1)) \<noteq> 0"
        using "1.IH"(1) [OF c refl] pos by simp
      moreover have "\<not> (\<forall>j. i \<le> j \<and> Suc j < length blocks \<longrightarrow> ?d j \<le> 0)"
        using pos True by (auto intro: exI [of _ i])
      ultimately show ?thesis by simp
    next
      case nonpos: False
      then have "averageLoop blocks i t n = averageLoop blocks (i + 1) t n"
        using c by (subst averageLoop.simps) (simp add: Let_def)
      moreover have "snd (averageLoop blocks (i + 1) t n) = 0 \<longleftrightarrow>
          n = 0 \<and> (\<forall>j. i + 1 \<le> j \<and> Suc j < length blocks \<longrightarrow> ?d j \<le> 0)"
        using "1.IH"(2) [OF c refl] nonpos by simp
      moreover have "(\<forall>j. i + 1 \<le> j \<and> Suc j < length blocks \<longrightarrow> ?d j \<le> 0) \<longleftrightarrow>
          (\<forall>j. i \<le> j \<and> Suc j < length blocks \<longrightarrow> ?d j \<le> 0)"
      proof
        assume a: "\<forall>j. i + 1 \<le> j \<and> Suc j < length blocks \<longrightarrow> ?d j \<le> 0"
        show "\<forall>j. i \<le> j \<and> Suc j < length blocks \<longrightarrow> ?d j \<le> 0"
        proof (intro allI impI)
          fix j assume j: "i \<le> j \<and> Suc j < length blocks"
          show "?d j \<le> 0"
          proof (cases "j = i")
            case True
            then show ?thesis using nonpos by simp
          next
            case False
            then have "i + 1 \<le> j" using j by simp
            then show ?thesis using a j by blast
          qed
        qed
      next
        assume a: "\<forall>j. i \<le> j \<and> Suc j < length blocks \<longrightarrow> ?d j \<le> 0"
        then show "\<forall>j. i + 1 \<le> j \<and> Suc j < length blocks \<longrightarrow> ?d j \<le> 0"
          by simp
      qed
      ultimately show ?thesis by simp
    qed
  qed
qed

lemma averageLoop_positive:
  "0 \<le> t \<Longrightarrow> 0 < n \<longrightarrow> 0 < t \<Longrightarrow> 0 < snd (averageLoop blocks i t n) \<Longrightarrow>
   0 < fst (averageLoop blocks i t n)"
proof (induction blocks i t n rule: averageLoop.induct)
  case (1 blocks i t n)
  let ?d = "timestamp (blocks ! i) - timestamp (blocks ! (i + 1))"
  show ?case
  proof (cases "int i < int (length blocks) - 1")
    case False
    then have "averageLoop blocks i t n = (t, n)"
      by (subst averageLoop.simps) simp
    then show ?thesis using "1.prems" by simp
  next
    case c: True
    show ?thesis
    proof (cases "0 < ?d")
      case pos: True
      then have e: "averageLoop blocks i t n = averageLoop blocks (i + 1) (t + ?d) (n + 1)"
        using c by (subst averageLoop.simps) (simp add: Let_def)
      have t: "0 \<le> t + ?d" "0 < n + 1 \<longrightarrow> 0 < t + ?d"
        using "1.prems"(1) pos by simp_all
      show ?thesis
        using "1.IH"(1) [OF c refl pos t] "1.prems"(3) by (simp add: e)
    next
      case nonpos: False
      then have e: "averageLoop blocks i t n = averageLoop blocks (i + 1) t n"
        using c by (subst averageLoop.simps) (simp add: Let_def)
      show ?thesis
        using "1.IH"(2) [OF c refl nonpos "1.prems"(1,2)] "1.prems"(3) by (simp add: e)
    qed
  qed
qed

lemma calculateAverageBlockTimeMs_None_iff:
  "calculateAverageBlockTimeMs blocks = None \<longleftrightarrow>
   length blocks < 2 \<or>
   (\<forall>j. Suc j < length blocks \<longrightarrow> timestamp (blocks ! j) - timestamp (blocks ! Suc j) \<le> 0)"
proof (cases "length blocks < 2")
  case True
  then show ?thesis by (simp add: calculateAverageBlockTimeMs_def)
next
  case False
  have "calculateAverageBlockTimeMs blocks = None \<longleftrightarrow> snd (averageLoop blocks 0 0 0) = 0"
    using False by (simp add: calculateAverageBlockTimeMs_def split_beta)
  then show ?thesis using False by (simp add: averageLoop_samples_zero)
qed

lemma calculateAverageBlockTimeMs_positive:
  "calculateAverageBlockTimeMs blocks = Some a \<Longrightarrow> 0 < a"
proof -
  assume a: "calculateAverageBlockTimeMs blocks = Some a"
  then have n: "0 < snd (averageLoop blocks 0 0 0)"
    and v: "a = real_of_int (fst (averageLoop blocks 0 0 0))
               / real (snd (averageLoop blocks 0 0 0)) * 1000"
    by (auto simp: calculateAverageBlockTimeMs_def split_beta split: if_splits)
  have "0 < fst (averageLoop blocks 0 0 0)"
    using n by (intro averageLoop_positive) simp_all
  then show ?thesis using n v by simp
qed

section \<open>Properties of the feed update coordinator\<close>

lemma sortBlocks_length: "length (sortBlocks blocks) = length blocks"
  by (simp add: sortBlocks_def)

lemma fetchBlockData_primary_failed:
  "response = None \<or> response = Some [] \<Longrightarrow>
   fetchBlockData response fallbackResponse now s =
   fetchBlockHeightFallback fallbackResponse now s"
  by (auto simp: fetchBlockData_def)

lemma fetchBlockHeightFallback_changed:
  "currentBlock s \<noteq> Some h \<Longrightarrow>
   fetchBlockHeightFallback (Some h) now s =
   (True, s\<lparr>currentBlock := Some h, lastBlockTimeMs := Some now,
              estimatedTargetTimeMs :=
                Some (now + real_of_int (max 0 (TARGET_BLOCK_HEIGHT - h)) * getActiveBlockTimeMs s)\<rparr>)"
  by (auto simp: fetchBlockHeightFallback_def updateEstimatedTargetTime_def
      getActiveBlockTimeMs_def Let_def)

lemma fetchBlockHeightFallback_avgBlockTimeMs:
  "avgBlockTimeMs (snd (fetchBlockHeightFallback fallbackResponse now s)) = avgBlockTimeMs s"
  by (cases fallbackResponse)
    (simp_all add: fetchBlockHeightFallback_def updateEstimatedTargetTime_def Let_def)

lemma fetchBlockHeightFallback_estimateMode:
  "estimateMode (snd (fetchBlockHeightFallback fallbackResponse now s)) = estimateMode s"
  by (cases fallbackResponse)
    (simp_all add: fetchBlockHeightFallback_def updateEstimatedTargetTime_def Let_def)

lemma fetchBlockData_avgBlockTimeMs:
  "avgBlockTimeMs (snd (fetchBlockData response fallbackResponse now s)) =
     (case response of
        None \<Rightarrow> avgBlockTimeMs s
      | Some blocks \<Rightarrow>
          if blocks = [] then avgBlockTimeMs s
          else (case calculateAverageBlockTimeMs (sortBlocks blocks) of
                  None \<Rightarrow> avgBlockTimeMs s
                | Some a \<Rightarrow> a))"
proof (cases response)
  case None
  then show ?thesis
    by (simp add: fetchBlockData_def fetchBlockHeightFallback_avgBlockTimeMs)
next
  case (Some blocks)
  show ?thesis
  proof (cases "blocks = []")
    case True
    with Some show ?thesis
      by (simp add: fetchBlockData_def fetchBlockHeightFallback_avgBlockTimeMs)
  next
    case False
    show ?thesis
    proof (cases "calculateAverageBlockTimeMs (sortBlocks blocks)")
      case None
      with Some False show ?thesis
        by (simp add: fetchBlockData_def updateEstimatedTargetTime_def Let_def)
    next
      case (Some a)
      then have "a \<noteq> 0" using calculateAverageBlockTimeMs_positive [of "sortBlocks blocks" a]
        by simp
      with Some \<open>response = Some blocks\<close> False show ?thesis
        by (simp add: fetchBlockData_def updateEstimatedTargetTime_def Let_def)
    qed
  qed
qed

lemma fetchBlockData_estimateMode:
  "estimateMode (snd (fetchBlockData response fallbackResponse now s)) = estimateMode s"
  by (simp add: fetchBlockData_def fetchBlockHeightFallback_estimateMode
      updateEstimatedTargetTime_def Let_def split: option.split)

lemma fetchBlockData_avgBlockTimeMs_positive:
  "0 < avgBlockTimeMs s \<Longrightarrow>
   0 < avgBlockTimeMs (snd (fetchBlockData response fallbackResponse now s))"
  by (auto simp: fetchBlockData_avgBlockTimeMs calculateAverageBlockTimeMs_positive
      split: option.split)

lemma updateDisplay_avgBlockTimeMs: "avgBlockTimeMs (updateDisplay s) = avgBlockTimeMs s"
  by (simp add: updateDisplay_def)

lemma toggleEstimateMode_avgBlockTimeMs:
  "avgBlockTimeMs (toggleEstimateMode checked s) = avgBlockTimeMs s"
  by (simp add: toggleEstimateMode_def updateDisplay_def updateEstimatedTargetTime_def Let_def
      split: option.split)

lemma step_avgBlockTimeMs_positive: "0 < avgBlockTimeMs s \<Longrightarrow> 0 < avgBlockTimeMs (step s e)"
  by (cases e)
    (simp_all add: updateDisplay_avgBlockTimeMs toggleEstimateMode_avgBlockTimeMs
      fetchBlockData_avgBlockTimeMs_positive)

lemma foldl_step_avgBlockTimeMs_positive:
  "0 < avgBlockTimeMs s \<Longrightarrow> 0 < avgBlockTimeMs (foldl step s events)"
  by (induction events arbitrary: s) (simp_all add: step_avgBlockTimeMs_positive)

lemma getActiveBlockTimeMs_positive: "0 < avgBlockTimeMs s \<Longrightarrow> 0 < getActiveBlockTimeMs s"
  by (simp add: getActiveBlockTimeMs_def FIXED_BLOCK_TIME_MS_def)

text \<open>
  A successful primary poll, in full: the guard of script.ts, line 158, decides between
  the state with a new anchor and a new projection and the state where only the rate may
  have changed.
\<close>

lemma fetchBlockData_primary:
  "blocks \<noteq> [] \<Longrightarrow>
   fetchBlockData (Some blocks) fallbackResponse now s =
   (True,
    if currentBlock s \<noteq> Some (height (hd (sortBlocks blocks)))
       \<or> estimatedTargetTimeMs s = None
       \<or> lastBlockTimeMs s \<noteq> Some (real_of_int (timestamp (hd (sortBlocks blocks)) * 1000))
    then s\<lparr>currentBlock := Some (height (hd (sortBlocks blocks))),
           avgBlockTimeMs :=
             (case calculateAverageBlockTimeMs (sortBlocks blocks) of
                None \<Rightarrow> avgBlockTimeMs s | Some r \<Rightarrow> r),
           lastBlockTimeMs := Some (real_of_int (timestamp (hd (sortBlocks blocks)) * 1000)),
           estimatedTargetTimeMs :=
             Some (real_of_int (timestamp (hd (sortBlocks blocks)) * 1000)
                   + real_of_int (max 0 (TARGET_BLOCK_HEIGHT - height (hd (sortBlocks blocks))))
                     * getActiveBlockTimeMs
                         (s\<lparr>avgBlockTimeMs :=
                              (case calculateAverageBlockTimeMs (sortBlocks blocks) of
                                 None \<Rightarrow> avgBlockTimeMs s | Some r \<Rightarrow> r)\<rparr>))\<rparr>
    else s\<lparr>avgBlockTimeMs :=
             (case calculateAverageBlockTimeMs (sortBlocks blocks) of
                None \<Rightarrow> avgBlockTimeMs s | Some r \<Rightarrow> r)\<rparr>)"
proof (cases "calculateAverageBlockTimeMs (sortBlocks blocks)")
  case None
  assume "blocks \<noteq> []"
  with None show ?thesis
    by (auto simp: fetchBlockData_def updateEstimatedTargetTime_def
        getActiveBlockTimeMs_def Let_def)
next
  case (Some a)
  assume b: "blocks \<noteq> []"
  have "a \<noteq> 0"
    using Some calculateAverageBlockTimeMs_positive [of "sortBlocks blocks" a] by simp
  with Some b show ?thesis
    by (auto simp: fetchBlockData_def updateEstimatedTargetTime_def
        getActiveBlockTimeMs_def Let_def)
qed

lemma first_poll_state:
  "snd (fetchBlockData
     (Some [\<lparr>height = 100, timestamp = 2000\<rparr>, \<lparr>height = 99, timestamp = 1400\<rparr>]) None 0 initState)
   = \<lparr>currentBlock = Some 100, avgBlockTimeMs = 600000, lastBlockTimeMs = Some 2000000,
      estimatedTargetTimeMs = Some 563941400000, estimateMode = Average,
      currentBlockError = False\<rparr>"
  by (simp add: fetchBlockData_def sortBlocks_def calculateAverageBlockTimeMs_def
      averageLoop.simps updateEstimatedTargetTime_def getActiveBlockTimeMs_def Let_def
      initState_def TARGET_BLOCK_HEIGHT_value FALLBACK_BLOCK_TIME_MS_def FIXED_BLOCK_TIME_MS_def)

text \<open>
  After a poll that failed on both feeds, the display update that follows takes the error
  class away again when a current block is known.
\<close>

lemma total_failure_with_known_block_display:
  "currentBlock s \<noteq> None \<Longrightarrow>
   currentBlockError (step s (Poll None None now)) \<and>
   \<not> currentBlockError (step (step s (Poll None None now)) Tick)"
  by (simp add: fetchBlockData_def fetchBlockHeightFallback_def updateDisplay_def)

section \<open>Claims on the projection and the feed\<close>

text \<open>
  C3 (as stated, refuted): two successful primary polls in a row with the same tip block
  (height 100, timestamp 2000) and a second batch with another average (500 s instead of
  600 s) would move the projected instant to the new rate. After the second poll
  \<open>avgBlockTimeMs\<close> is 500000, but \<open>estimatedTargetTimeMs\<close> is still the instant projected
  with 600000, not the one projected with 500000.
\<close>

theorem same_tip_new_rate_not_reprojected:
  "avgBlockTimeMs (snd (fetchBlockData
      (Some [\<lparr>height = 100, timestamp = 2000\<rparr>, \<lparr>height = 99, timestamp = 1400\<rparr>]) None 0
      initState)) = 600000 \<and>
   estimatedTargetTimeMs (snd (fetchBlockData
      (Some [\<lparr>height = 100, timestamp = 2000\<rparr>, \<lparr>height = 99, timestamp = 1400\<rparr>]) None 0
      initState)) = Some (2000000 + 939899 * 600000) \<and>
   avgBlockTimeMs (snd (fetchBlockData
      (Some [\<lparr>height = 100, timestamp = 2000\<rparr>, \<lparr>height = 99, timestamp = 1500\<rparr>]) None 30000
      (snd (fetchBlockData
         (Some [\<lparr>height = 100, timestamp = 2000\<rparr>, \<lparr>height = 99, timestamp = 1400\<rparr>]) None 0
         initState)))) = 500000 \<and>
   estimatedTargetTimeMs (snd (fetchBlockData
      (Some [\<lparr>height = 100, timestamp = 2000\<rparr>, \<lparr>height = 99, timestamp = 1500\<rparr>]) None 30000
      (snd (fetchBlockData
         (Some [\<lparr>height = 100, timestamp = 2000\<rparr>, \<lparr>height = 99, timestamp = 1400\<rparr>]) None 0
         initState)))) = Some (2000000 + 939899 * 600000) \<and>
   estimatedTargetTimeMs (snd (fetchBlockData
      (Some [\<lparr>height = 100, timestamp = 2000\<rparr>, \<lparr>height = 99, timestamp = 1500\<rparr>]) None 30000
      (snd (fetchBlockData
         (Some [\<lparr>height = 100, timestamp = 2000\<rparr>, \<lparr>height = 99, timestamp = 1400\<rparr>]) None 0
         initState)))) \<noteq> Some (2000000 + 939899 * 500000)"
  unfolding first_poll_state
  by (simp add: fetchBlockData_def sortBlocks_def calculateAverageBlockTimeMs_def
      averageLoop.simps updateEstimatedTargetTime_def getActiveBlockTimeMs_def Let_def)

text \<open>
  C3 (amended): when a successful primary poll reports the stored counter value and the
  stored tip timestamp, a projection exists, and the batch has an average that differs
  from the stored rate, then the poll succeeds, \<open>avgBlockTimeMs\<close> becomes the new average,
  and the projected instant, the counter value and the anchor stay as they were: the
  projection is not recomputed by this poll. On a successful primary poll the projection
  is recomputed exactly when the counter value changed, no projection exists, or the tip
  timestamp is not the stored anchor. Without any of the three the poll changes nothing
  but the rate; with one of them the counter value becomes the tip height, the anchor the
  tip timestamp, and the projected instant the anchor plus the blocks left times the
  active rate after the update of the rate.
\<close>

theorem same_tip_new_rate_keeps_projection:
  "(blocks \<noteq> [] \<and>
    currentBlock s = Some (height (hd (sortBlocks blocks))) \<and>
    lastBlockTimeMs s = Some (real_of_int (timestamp (hd (sortBlocks blocks)) * 1000)) \<and>
    estimatedTargetTimeMs s \<noteq> None \<and>
    calculateAverageBlockTimeMs (sortBlocks blocks) = Some a \<and> a \<noteq> avgBlockTimeMs s \<longrightarrow>
    fst (fetchBlockData (Some blocks) fallbackResponse now s) = True \<and>
    avgBlockTimeMs (snd (fetchBlockData (Some blocks) fallbackResponse now s)) = a \<and>
    estimatedTargetTimeMs (snd (fetchBlockData (Some blocks) fallbackResponse now s))
      = estimatedTargetTimeMs s \<and>
    currentBlock (snd (fetchBlockData (Some blocks) fallbackResponse now s)) = currentBlock s \<and>
    lastBlockTimeMs (snd (fetchBlockData (Some blocks) fallbackResponse now s))
      = lastBlockTimeMs s) \<and>
   (blocks \<noteq> [] \<and>
    currentBlock s = Some (height (hd (sortBlocks blocks))) \<and>
    lastBlockTimeMs s = Some (real_of_int (timestamp (hd (sortBlocks blocks)) * 1000)) \<and>
    estimatedTargetTimeMs s \<noteq> None \<longrightarrow>
    fetchBlockData (Some blocks) fallbackResponse now s =
      (True, s\<lparr>avgBlockTimeMs :=
                  (case calculateAverageBlockTimeMs (sortBlocks blocks) of
                     None \<Rightarrow> avgBlockTimeMs s | Some r \<Rightarrow> r)\<rparr>)) \<and>
   (feed \<noteq> [] \<and>
    (currentBlock t \<noteq> Some (height (hd (sortBlocks feed))) \<or>
     estimatedTargetTimeMs t = None \<or>
     lastBlockTimeMs t \<noteq> Some (real_of_int (timestamp (hd (sortBlocks feed)) * 1000))) \<longrightarrow>
    fetchBlockData (Some feed) fallbackResponse now t =
      (True,
       t\<lparr>currentBlock := Some (height (hd (sortBlocks feed))),
          avgBlockTimeMs :=
            (case calculateAverageBlockTimeMs (sortBlocks feed) of
               None \<Rightarrow> avgBlockTimeMs t | Some r \<Rightarrow> r),
          lastBlockTimeMs := Some (real_of_int (timestamp (hd (sortBlocks feed)) * 1000)),
          estimatedTargetTimeMs :=
            Some (real_of_int (timestamp (hd (sortBlocks feed)) * 1000)
                  + real_of_int (max 0 (TARGET_BLOCK_HEIGHT - height (hd (sortBlocks feed))))
                    * getActiveBlockTimeMs
                        (t\<lparr>avgBlockTimeMs :=
                             (case calculateAverageBlockTimeMs (sortBlocks feed) of
                                None \<Rightarrow> avgBlockTimeMs t | Some r \<Rightarrow> r)\<rparr>))\<rparr>))"
proof -
  have same_rate: "blocks \<noteq> [] \<and>
    currentBlock s = Some (height (hd (sortBlocks blocks))) \<and>
    lastBlockTimeMs s = Some (real_of_int (timestamp (hd (sortBlocks blocks)) * 1000)) \<and>
    estimatedTargetTimeMs s \<noteq> None \<and>
    calculateAverageBlockTimeMs (sortBlocks blocks) = Some a \<and> a \<noteq> avgBlockTimeMs s \<longrightarrow>
    fst (fetchBlockData (Some blocks) fallbackResponse now s) = True \<and>
    avgBlockTimeMs (snd (fetchBlockData (Some blocks) fallbackResponse now s)) = a \<and>
    estimatedTargetTimeMs (snd (fetchBlockData (Some blocks) fallbackResponse now s))
      = estimatedTargetTimeMs s \<and>
    currentBlock (snd (fetchBlockData (Some blocks) fallbackResponse now s)) = currentBlock s \<and>
    lastBlockTimeMs (snd (fetchBlockData (Some blocks) fallbackResponse now s))
      = lastBlockTimeMs s"
  proof
    assume a: "blocks \<noteq> [] \<and>
      currentBlock s = Some (height (hd (sortBlocks blocks))) \<and>
      lastBlockTimeMs s = Some (real_of_int (timestamp (hd (sortBlocks blocks)) * 1000)) \<and>
      estimatedTargetTimeMs s \<noteq> None \<and>
      calculateAverageBlockTimeMs (sortBlocks blocks) = Some a \<and> a \<noteq> avgBlockTimeMs s"
    then have "fetchBlockData (Some blocks) fallbackResponse now s =
        (True, s\<lparr>avgBlockTimeMs := a\<rparr>)"
      using fetchBlockData_primary [of blocks fallbackResponse now s] by simp
    with a show "fst (fetchBlockData (Some blocks) fallbackResponse now s) = True \<and>
      avgBlockTimeMs (snd (fetchBlockData (Some blocks) fallbackResponse now s)) = a \<and>
      estimatedTargetTimeMs (snd (fetchBlockData (Some blocks) fallbackResponse now s))
        = estimatedTargetTimeMs s \<and>
      currentBlock (snd (fetchBlockData (Some blocks) fallbackResponse now s)) = currentBlock s \<and>
      lastBlockTimeMs (snd (fetchBlockData (Some blocks) fallbackResponse now s))
        = lastBlockTimeMs s"
      by simp
  qed
  have kept: "blocks \<noteq> [] \<and>
    currentBlock s = Some (height (hd (sortBlocks blocks))) \<and>
    lastBlockTimeMs s = Some (real_of_int (timestamp (hd (sortBlocks blocks)) * 1000)) \<and>
    estimatedTargetTimeMs s \<noteq> None \<longrightarrow>
    fetchBlockData (Some blocks) fallbackResponse now s =
      (True, s\<lparr>avgBlockTimeMs :=
                  (case calculateAverageBlockTimeMs (sortBlocks blocks) of
                     None \<Rightarrow> avgBlockTimeMs s | Some r \<Rightarrow> r)\<rparr>)"
    using fetchBlockData_primary [of blocks fallbackResponse now s] by simp
  have reprojected: "feed \<noteq> [] \<and>
    (currentBlock t \<noteq> Some (height (hd (sortBlocks feed))) \<or>
     estimatedTargetTimeMs t = None \<or>
     lastBlockTimeMs t \<noteq> Some (real_of_int (timestamp (hd (sortBlocks feed)) * 1000))) \<longrightarrow>
    fetchBlockData (Some feed) fallbackResponse now t =
      (True,
       t\<lparr>currentBlock := Some (height (hd (sortBlocks feed))),
          avgBlockTimeMs :=
            (case calculateAverageBlockTimeMs (sortBlocks feed) of
               None \<Rightarrow> avgBlockTimeMs t | Some r \<Rightarrow> r),
          lastBlockTimeMs := Some (real_of_int (timestamp (hd (sortBlocks feed)) * 1000)),
          estimatedTargetTimeMs :=
            Some (real_of_int (timestamp (hd (sortBlocks feed)) * 1000)
                  + real_of_int (max 0 (TARGET_BLOCK_HEIGHT - height (hd (sortBlocks feed))))
                    * getActiveBlockTimeMs
                        (t\<lparr>avgBlockTimeMs :=
                             (case calculateAverageBlockTimeMs (sortBlocks feed) of
                                None \<Rightarrow> avgBlockTimeMs t | Some r \<Rightarrow> r)\<rparr>))\<rparr>)"
    using fetchBlockData_primary [of feed fallbackResponse now t] by auto
  show ?thesis
    by (rule conjI [OF same_rate conjI [OF kept reprojected]])
qed

text \<open>
  C3 (amended), at the state a first poll leaves (lemma \<open>first_poll_state\<close>): with a
  second batch, out of order, with the same tip and an average of 500 s, only the rate
  changes; with a batch whose tip is the new block 101, the poll takes the new anchor and
  projects with the new rate of 450 s.
\<close>

theorem same_tip_new_rate_keeps_projection_witness:
  "[\<lparr>height = 99, timestamp = 1500\<rparr>, \<lparr>height = 100, timestamp = 2000\<rparr>] \<noteq> [] \<and>
   Some (100::int) = Some (height (hd (sortBlocks
      [\<lparr>height = 99, timestamp = 1500\<rparr>, \<lparr>height = 100, timestamp = 2000\<rparr>]))) \<and>
   Some (2000000::real) = Some (real_of_int (timestamp (hd (sortBlocks
      [\<lparr>height = 99, timestamp = 1500\<rparr>, \<lparr>height = 100, timestamp = 2000\<rparr>])) * 1000)) \<and>
   Some (563941400000::real) \<noteq> None \<and>
   calculateAverageBlockTimeMs
      (sortBlocks [\<lparr>height = 99, timestamp = 1500\<rparr>, \<lparr>height = 100, timestamp = 2000\<rparr>])
     = Some 500000 \<and>
   (500000::real) \<noteq> 600000 \<and>
   fetchBlockData
      (Some [\<lparr>height = 99, timestamp = 1500\<rparr>, \<lparr>height = 100, timestamp = 2000\<rparr>]) None 30000
      \<lparr>currentBlock = Some 100, avgBlockTimeMs = 600000, lastBlockTimeMs = Some 2000000,
       estimatedTargetTimeMs = Some 563941400000, estimateMode = Average,
       currentBlockError = False\<rparr>
     = (True,
        \<lparr>currentBlock = Some 100, avgBlockTimeMs = 500000, lastBlockTimeMs = Some 2000000,
         estimatedTargetTimeMs = Some 563941400000, estimateMode = Average,
         currentBlockError = False\<rparr>) \<and>
   [\<lparr>height = 100, timestamp = 2000\<rparr>, \<lparr>height = 101, timestamp = 2450\<rparr>] \<noteq> [] \<and>
   Some (100::int) \<noteq> Some (height (hd (sortBlocks
      [\<lparr>height = 100, timestamp = 2000\<rparr>, \<lparr>height = 101, timestamp = 2450\<rparr>]))) \<and>
   fetchBlockData
      (Some [\<lparr>height = 100, timestamp = 2000\<rparr>, \<lparr>height = 101, timestamp = 2450\<rparr>]) None 30000
      \<lparr>currentBlock = Some 100, avgBlockTimeMs = 600000, lastBlockTimeMs = Some 2000000,
       estimatedTargetTimeMs = Some 563941400000, estimateMode = Average,
       currentBlockError = False\<rparr>
     = (True,
        \<lparr>currentBlock = Some 101, avgBlockTimeMs = 450000, lastBlockTimeMs = Some 2450000,
         estimatedTargetTimeMs = Some (2450000 + 939898 * 450000), estimateMode = Average,
         currentBlockError = False\<rparr>)"
  using same_tip_new_rate_keeps_projection
    [where blocks = "[\<lparr>height = 99, timestamp = 1500\<rparr>, \<lparr>height = 100, timestamp = 2000\<rparr>]"
       and s = "\<lparr>currentBlock = Some 100, avgBlockTimeMs = 600000,
                 lastBlockTimeMs = Some 2000000,
                 estimatedTargetTimeMs = Some 563941400000, estimateMode = Average,
                 currentBlockError = False\<rparr>"
       and a = 500000 and fallbackResponse = None and now = 30000
       and feed = "[\<lparr>height = 100, timestamp = 2000\<rparr>, \<lparr>height = 101, timestamp = 2450\<rparr>]"
       and t = "\<lparr>currentBlock = Some 100, avgBlockTimeMs = 600000,
                 lastBlockTimeMs = Some 2000000,
                 estimatedTargetTimeMs = Some 563941400000, estimateMode = Average,
                 currentBlockError = False\<rparr>"]
  by (simp add: sortBlocks_def calculateAverageBlockTimeMs_def averageLoop.simps
      getActiveBlockTimeMs_def TARGET_BLOCK_HEIGHT_value)

text \<open>
  C5: when the primary poll fails (no usable response, or an empty array) and the
  fallback brings a height other than the stored one, the poll succeeds, the counter
  value is the new height, the anchor is the current time, the stored rate, the mode
  and so the active rate are as before, and the projected instant is the new anchor plus
  the blocks left times that active rate. The fallback takes no sample batch, so no
  average is computed on this path.
\<close>

theorem fallback_new_height:
  "(response = None \<or> response = Some []) \<and> currentBlock s \<noteq> Some h \<longrightarrow>
   fst (fetchBlockData response (Some h) now s) = True \<and>
   currentBlock (snd (fetchBlockData response (Some h) now s)) = Some h \<and>
   lastBlockTimeMs (snd (fetchBlockData response (Some h) now s)) = Some now \<and>
   avgBlockTimeMs (snd (fetchBlockData response (Some h) now s)) = avgBlockTimeMs s \<and>
   estimateMode (snd (fetchBlockData response (Some h) now s)) = estimateMode s \<and>
   getActiveBlockTimeMs (snd (fetchBlockData response (Some h) now s)) = getActiveBlockTimeMs s \<and>
   estimatedTargetTimeMs (snd (fetchBlockData response (Some h) now s)) =
     Some (now + real_of_int (max 0 (TARGET_BLOCK_HEIGHT - h)) * getActiveBlockTimeMs s)"
proof
  assume a: "(response = None \<or> response = Some []) \<and> currentBlock s \<noteq> Some h"
  then have "fetchBlockData response (Some h) now s =
      (True, s\<lparr>currentBlock := Some h, lastBlockTimeMs := Some now,
                 estimatedTargetTimeMs :=
                   Some (now + real_of_int (max 0 (TARGET_BLOCK_HEIGHT - h))
                                 * getActiveBlockTimeMs s)\<rparr>)"
    using fetchBlockData_primary_failed [of response "Some h" now s]
      fetchBlockHeightFallback_changed [of s h now]
    by simp
  then show "fst (fetchBlockData response (Some h) now s) = True \<and>
   currentBlock (snd (fetchBlockData response (Some h) now s)) = Some h \<and>
   lastBlockTimeMs (snd (fetchBlockData response (Some h) now s)) = Some now \<and>
   avgBlockTimeMs (snd (fetchBlockData response (Some h) now s)) = avgBlockTimeMs s \<and>
   estimateMode (snd (fetchBlockData response (Some h) now s)) = estimateMode s \<and>
   getActiveBlockTimeMs (snd (fetchBlockData response (Some h) now s)) = getActiveBlockTimeMs s \<and>
   estimatedTargetTimeMs (snd (fetchBlockData response (Some h) now s)) =
     Some (now + real_of_int (max 0 (TARGET_BLOCK_HEIGHT - h)) * getActiveBlockTimeMs s)"
    by (simp add: getActiveBlockTimeMs_def)
qed

text \<open>
  C5, at a state with height 100 and a rate of 500 s: the primary request fails and the
  fallback reports height 101 at the time 2345678.
\<close>

theorem fallback_new_height_witness:
  "((None :: block list option) = None \<or> (None :: block list option) = Some []) \<and>
   Some (100::int) \<noteq> Some 101 \<and>
   lastBlockTimeMs (snd (fetchBlockData None (Some 101) 2345678
      \<lparr>currentBlock = Some 100, avgBlockTimeMs = 500000, lastBlockTimeMs = Some 2000000,
       estimatedTargetTimeMs = Some 469951500000, estimateMode = Average,
       currentBlockError = False\<rparr>)) = Some 2345678 \<and>
   avgBlockTimeMs (snd (fetchBlockData None (Some 101) 2345678
      \<lparr>currentBlock = Some 100, avgBlockTimeMs = 500000, lastBlockTimeMs = Some 2000000,
       estimatedTargetTimeMs = Some 469951500000, estimateMode = Average,
       currentBlockError = False\<rparr>)) = 500000 \<and>
   estimatedTargetTimeMs (snd (fetchBlockData None (Some 101) 2345678
      \<lparr>currentBlock = Some 100, avgBlockTimeMs = 500000, lastBlockTimeMs = Some 2000000,
       estimatedTargetTimeMs = Some 469951500000, estimateMode = Average,
       currentBlockError = False\<rparr>)) = Some (2345678 + 939898 * 500000)"
  using fallback_new_height [of None
      "\<lparr>currentBlock = Some 100, avgBlockTimeMs = 500000, lastBlockTimeMs = Some 2000000,
        estimatedTargetTimeMs = Some 469951500000, estimateMode = Average,
        currentBlockError = False\<rparr>" 101 2345678]
  by (simp add: getActiveBlockTimeMs_def TARGET_BLOCK_HEIGHT_value)

text \<open>
  C6: the estimator returns \<open>null\<close> exactly when the window has fewer than two entries
  or no adjacent pair has a positive difference of timestamps; when it returns \<open>null\<close>
  on the sorted batch, the poll leaves \<open>avgBlockTimeMs\<close> as it was; and the first value
  of \<open>avgBlockTimeMs\<close> is the fixed nominal rate.
\<close>

theorem estimator_null_and_rate_retained:
  "(calculateAverageBlockTimeMs blocks = None \<longleftrightarrow>
      length blocks < 2 \<or>
      (\<forall>j. Suc j < length blocks \<longrightarrow>
           \<not> 0 < timestamp (blocks ! j) - timestamp (blocks ! Suc j))) \<and>
   (calculateAverageBlockTimeMs (sortBlocks feed) = None \<longrightarrow>
      avgBlockTimeMs (snd (fetchBlockData (Some feed) fallbackResponse now s)) = avgBlockTimeMs s) \<and>
   avgBlockTimeMs initState = FIXED_BLOCK_TIME_MS"
proof (intro conjI impI)
  show "calculateAverageBlockTimeMs blocks = None \<longleftrightarrow>
      length blocks < 2 \<or>
      (\<forall>j. Suc j < length blocks \<longrightarrow>
           \<not> 0 < timestamp (blocks ! j) - timestamp (blocks ! Suc j))"
    by (simp add: calculateAverageBlockTimeMs_None_iff not_less)
next
  assume "calculateAverageBlockTimeMs (sortBlocks feed) = None"
  then show "avgBlockTimeMs (snd (fetchBlockData (Some feed) fallbackResponse now s))
      = avgBlockTimeMs s"
    by (simp add: fetchBlockData_avgBlockTimeMs)
next
  show "avgBlockTimeMs initState = FIXED_BLOCK_TIME_MS"
    by (simp add: initState_def FALLBACK_BLOCK_TIME_MS_def)
qed

text \<open>
  C6, on a window of three blocks with equal timestamps, and on the first poll of the
  script with such a batch: the rate stays at 600000 ms.
\<close>

theorem estimator_null_and_rate_retained_witness:
  "calculateAverageBlockTimeMs
     [\<lparr>height = 3, timestamp = 100\<rparr>, \<lparr>height = 2, timestamp = 100\<rparr>,
      \<lparr>height = 1, timestamp = 100\<rparr>] = None \<and>
   calculateAverageBlockTimeMs
     (sortBlocks [\<lparr>height = 2, timestamp = 100\<rparr>, \<lparr>height = 3, timestamp = 100\<rparr>,
      \<lparr>height = 1, timestamp = 100\<rparr>]) = None \<and>
   avgBlockTimeMs (snd (fetchBlockData
     (Some [\<lparr>height = 2, timestamp = 100\<rparr>, \<lparr>height = 3, timestamp = 100\<rparr>,
      \<lparr>height = 1, timestamp = 100\<rparr>]) None 0 initState)) = 600000"
  using estimator_null_and_rate_retained
    [of "[\<lparr>height = 3, timestamp = 100\<rparr>, \<lparr>height = 2, timestamp = 100\<rparr>,
          \<lparr>height = 1, timestamp = 100\<rparr>]"
        "[\<lparr>height = 2, timestamp = 100\<rparr>, \<lparr>height = 3, timestamp = 100\<rparr>,
          \<lparr>height = 1, timestamp = 100\<rparr>]" None 0 initState]
  by (simp add: sortBlocks_def calculateAverageBlockTimeMs_def averageLoop.simps
      initState_def FALLBACK_BLOCK_TIME_MS_def FIXED_BLOCK_TIME_MS_def)

text \<open>
  C7: when the primary poll fails and the fallback fails too, \<open>fetchBlockData\<close> returns
  \<open>false\<close>, the element of the current block carries the error class, and the counter
  value, the rate, the anchor, the projected instant and the mode are what they were.
\<close>

theorem total_failure_keeps_estimate:
  "response = None \<or> response = Some [] \<longrightarrow>
   fst (fetchBlockData response None now s) = False \<and>
   currentBlockError (snd (fetchBlockData response None now s)) \<and>
   currentBlock (snd (fetchBlockData response None now s)) = currentBlock s \<and>
   avgBlockTimeMs (snd (fetchBlockData response None now s)) = avgBlockTimeMs s \<and>
   lastBlockTimeMs (snd (fetchBlockData response None now s)) = lastBlockTimeMs s \<and>
   estimatedTargetTimeMs (snd (fetchBlockData response None now s)) = estimatedTargetTimeMs s \<and>
   estimateMode (snd (fetchBlockData response None now s)) = estimateMode s"
  by (auto simp: fetchBlockData_def fetchBlockHeightFallback_def)

text \<open>C7, at a state with an estimate, when the primary feed sends an empty array.\<close>

theorem total_failure_keeps_estimate_witness:
  "((Some [] :: block list option) = None \<or> (Some [] :: block list option) = Some []) \<and>
   fst (fetchBlockData (Some []) None 5
      \<lparr>currentBlock = Some 100, avgBlockTimeMs = 500000, lastBlockTimeMs = Some 2000000,
       estimatedTargetTimeMs = Some 469951500000, estimateMode = Average,
       currentBlockError = False\<rparr>) = False \<and>
   currentBlockError (snd (fetchBlockData (Some []) None 5
      \<lparr>currentBlock = Some 100, avgBlockTimeMs = 500000, lastBlockTimeMs = Some 2000000,
       estimatedTargetTimeMs = Some 469951500000, estimateMode = Average,
       currentBlockError = False\<rparr>)) \<and>
   currentBlock (snd (fetchBlockData (Some []) None 5
      \<lparr>currentBlock = Some 100, avgBlockTimeMs = 500000, lastBlockTimeMs = Some 2000000,
       estimatedTargetTimeMs = Some 469951500000, estimateMode = Average,
       currentBlockError = False\<rparr>)) = Some 100 \<and>
   avgBlockTimeMs (snd (fetchBlockData (Some []) None 5
      \<lparr>currentBlock = Some 100, avgBlockTimeMs = 500000, lastBlockTimeMs = Some 2000000,
       estimatedTargetTimeMs = Some 469951500000, estimateMode = Average,
       currentBlockError = False\<rparr>)) = 500000 \<and>
   lastBlockTimeMs (snd (fetchBlockData (Some []) None 5
      \<lparr>currentBlock = Some 100, avgBlockTimeMs = 500000, lastBlockTimeMs = Some 2000000,
       estimatedTargetTimeMs = Some 469951500000, estimateMode = Average,
       currentBlockError = False\<rparr>)) = Some 2000000 \<and>
   estimatedTargetTimeMs (snd (fetchBlockData (Some []) None 5
      \<lparr>currentBlock = Some 100, avgBlockTimeMs = 500000, lastBlockTimeMs = Some 2000000,
       estimatedTargetTimeMs = Some 469951500000, estimateMode = Average,
       currentBlockError = False\<rparr>)) = Some 469951500000"
  using total_failure_keeps_estimate [of "Some []" 5
      "\<lparr>currentBlock = Some 100, avgBlockTimeMs = 500000, lastBlockTimeMs = Some 2000000,
        estimatedTargetTimeMs = Some 469951500000, estimateMode = Average,
        currentBlockError = False\<rparr>"]
  by simp

text \<open>
  C8: with no blocks left, \<open>updateEstimatedTargetTime\<close> sets the projected instant to the
  anchor, whatever the stored rate and the mode are.
\<close>

theorem projection_zero_is_anchor:
  "estimatedTargetTimeMs
     (updateEstimatedTargetTime (Some 0) (Some anchor)
        (s\<lparr>avgBlockTimeMs := rate, estimateMode := mode\<rparr>)) = Some anchor"
  by (simp add: updateEstimatedTargetTime_def)

text \<open>
  C10: \<open>avgBlockTimeMs\<close> starts at 600000; every result of the estimator other than
  \<open>null\<close> is positive; and after any sequence of polls, display updates and flips of the
  toggle the stored rate is positive and the active rate is positive, in the mode the
  state is in and in either mode set by hand.
\<close>

theorem active_rate_positive:
  "avgBlockTimeMs initState = 600000 \<and>
   (calculateAverageBlockTimeMs blocks = Some a \<longrightarrow> 0 < a) \<and>
   0 < avgBlockTimeMs (run events) \<and>
   0 < getActiveBlockTimeMs (run events) \<and>
   0 < getActiveBlockTimeMs ((run events)\<lparr>estimateMode := mode\<rparr>)"
proof -
  have i: "avgBlockTimeMs initState = 600000"
    by (simp add: initState_def FALLBACK_BLOCK_TIME_MS_def FIXED_BLOCK_TIME_MS_def)
  then have r: "0 < avgBlockTimeMs (run events)"
    unfolding run_def by (intro foldl_step_avgBlockTimeMs_positive) simp
  then have "0 < avgBlockTimeMs ((run events)\<lparr>estimateMode := mode\<rparr>)"
    by simp
  then have "0 < getActiveBlockTimeMs ((run events)\<lparr>estimateMode := mode\<rparr>)"
    by (rule getActiveBlockTimeMs_positive)
  then show ?thesis
    using i r calculateAverageBlockTimeMs_positive getActiveBlockTimeMs_positive by blast
qed

text \<open>
  C10, on a batch with an average of 500 s, and after a poll with it, a display update,
  a flip to the fixed mode, a poll that fails on both feeds, a display update and a flip
  back.
\<close>

theorem active_rate_positive_witness:
  "calculateAverageBlockTimeMs
     [\<lparr>height = 100, timestamp = 2000\<rparr>, \<lparr>height = 99, timestamp = 1500\<rparr>] = Some 500000 \<and>
   (0::real) < 500000 \<and>
   0 < getActiveBlockTimeMs
         (run [Poll (Some [\<lparr>height = 100, timestamp = 2000\<rparr>, \<lparr>height = 99, timestamp = 1500\<rparr>])
                 None 0,
               Tick, Toggle False, Poll None None 1, Tick, Toggle True])"
  using active_rate_positive
    [of "[\<lparr>height = 100, timestamp = 2000\<rparr>, \<lparr>height = 99, timestamp = 1500\<rparr>]" 500000
        "[Poll (Some [\<lparr>height = 100, timestamp = 2000\<rparr>, \<lparr>height = 99, timestamp = 1500\<rparr>])
                 None 0,
               Tick, Toggle False, Poll None None 1, Tick, Toggle True]"]
  by (simp add: calculateAverageBlockTimeMs_def averageLoop.simps)

end
